theory Spec2Isabelle
  imports Main
begin

section \<open>Documents held by the repository\<close>

text \<open>
  Modelled from the spec: the schemas of \<^verbatim>\<open>models.js\<close> are not part of the source
  at hand. A movie carries the fields that \<^verbatim>\<open>index.js\<close> reads (\<^verbatim>\<open>Title\<close>,
  \<^verbatim>\<open>Genre.Name\<close>, \<^verbatim>\<open>Director.Name\<close>), a genre is "name + description", a director
  "name + metadata". A user carries the five fields that \<^verbatim>\<open>index.js\<close> writes. A field
  that is null or absent in the stored document is \<open>None\<close>.
\<close>

record genre =
  Genre_Name :: string
  Genre_Description :: string

record director =
  Director_Name :: string
  Director_Bio :: string

record movie =
  Title :: string
  Genre :: genre
  Director :: director

record user =
  userName :: "string option"
  password :: "string option"
  email :: "string option"
  Birthday :: "string option"
  FavoriteMovies :: "string list"

text \<open>
  The two collections, each in the repository's natural order. Nothing in
  \<^verbatim>\<open>index.js\<close> keeps user names distinct inside the collection, so \<open>Users\<close> is a
  list that may hold several documents with one name; a filter addresses the first.
\<close>

record db =
  Users :: "user list"
  Movies :: "movie list"

section \<open>Requests, responses, failures\<close>

datatype verb = GET | POST | PUT | DELETE

text \<open>
  A request: the verb, the path split at its slashes into decoded segments, the
  \<^verbatim>\<open>Authorization\<close> header if there is one, the parsed body (the payload), the
  query string, the other headers by their lower-case names, and the cookies, each a
  finite map from field names to text.
\<close>

record request =
  req_verb :: verb
  req_path :: "string list"
  req_authorization :: "string option"
  req_body :: "string \<rightharpoonup> string"
  req_query :: "string \<rightharpoonup> string"
  req_headers :: "string \<rightharpoonup> string"
  req_cookies :: "string \<rightharpoonup> string"

text \<open>
  What a promise is rejected with, or a callback receives as \<^verbatim>\<open>err\<close>: a failure of
  the repository call, the \<^verbatim>\<open>TypeError\<close> of reading a property of \<^verbatim>\<open>null\<close>, the
  \<^verbatim>\<open>ReferenceError\<close> of reading a name that is not declared.
\<close>

datatype js_error = RepositoryError | TypeError | ReferenceError

text \<open>The places of a request where a check looks for its field, in the order it does.\<close>

datatype location = Body | Cookies | Headers | Params | Query

text \<open>One entry of \<^verbatim>\<open>validationResult(req).array()\<close>.\<close>

record verror =
  err_value :: "string option"
  err_msg :: string
  err_param :: string
  err_location :: location

text \<open>
  Response bodies. \<open>Failure prefix err\<close> is the text \<^verbatim>\<open>prefix + err\<close>; a JSON body of a
  single document is \<open>None\<close> when the handler serialises \<^verbatim>\<open>null\<close>.
\<close>

datatype payload =
    Text string
  | Failure string js_error
  | File string
  | No_route
  | Movies_json "movie list"
  | Movie_json "movie option"
  | Users_json "user list"
  | User_json "user option"
  | Genre_json genre
  | Director_json director
  | Favorites_json "string list"
  | Errors_json "verror list"

text \<open>
  A request ends with a response (status and body), or with none at all when the
  handler's own \<^verbatim>\<open>catch\<close> callback throws.
\<close>

datatype outcome = Responded nat payload | Unanswered js_error

section \<open>Collaborators\<close>

text \<open>
  The parts \<^verbatim>\<open>index.js\<close> calls and does not define are parameters:
  \<^item> \<open>verify\<close>: the JWT strategy of \<^verbatim>\<open>passport.js\<close>, from the presented credential to
    the authenticated principal, \<open>None\<close> when the credential is missing, malformed,
    rejected or expired;
  \<^item> \<open>hashPassword\<close>: the static \<^verbatim>\<open>Users.hashPassword\<close> of \<^verbatim>\<open>models.js\<close>;
  \<^item> \<open>isEmail\<close>: the address syntax check of the validator library;
  \<^item> \<open>omitUndefined\<close>: whether the repository drops an undefined value of a
    \<^verbatim>\<open>$set\<close> (it does in some versions, and stores null in others);
  \<^item> \<open>putFavourite\<close>: the repository's answer to the last route of the file, whose
    filter and update name the fields \<^verbatim>\<open>Username\<close> and \<^verbatim>\<open>FavouriteMovies\<close> that no
    other route reads or writes; what happens to them is fixed by the schema.
\<close>

record env =
  verify :: "string option \<Rightarrow> string option"
  hashPassword :: "string \<Rightarrow> string"
  isEmail :: "string \<Rightarrow> bool"
  omitUndefined :: bool
  putFavourite :: "db \<Rightarrow> string \<Rightarrow> string \<Rightarrow> db \<times> outcome"

text \<open>
  The repository calls of \<^verbatim>\<open>index.js\<close>. Which of them fail while one request is served
  is decided outside the program (connection loss, a schema rejecting a value), so it is
  an input of the model: \<open>faults\<close> says which calls fail.
\<close>

datatype repo_call = Find | FindOne | Create | FindOneAndUpdate | FindOneAndRemove

type_synonym faults = "repo_call \<Rightarrow> bool"

section \<open>Repository primitives\<close>

text \<open>The first element satisfying \<open>P\<close> is replaced by its image; it is returned as updated.\<close>

fun updateFirst :: "('a \<Rightarrow> bool) \<Rightarrow> ('a \<Rightarrow> 'a) \<Rightarrow> 'a list \<Rightarrow> 'a list \<times> 'a option" where
  "updateFirst P f [] = ([], None)"
| "updateFirst P f (x # xs) =
     (if P x then (f x # xs, Some (f x))
      else (x # fst (updateFirst P f xs), snd (updateFirst P f xs)))"

text \<open>The first element satisfying \<open>P\<close> is removed and returned.\<close>

fun removeFirst :: "('a \<Rightarrow> bool) \<Rightarrow> 'a list \<Rightarrow> 'a list \<times> 'a option" where
  "removeFirst P [] = ([], None)"
| "removeFirst P (x # xs) =
     (if P x then (xs, Some x)
      else (x # fst (removeFirst P xs), snd (removeFirst P xs)))"

definition Movies_find :: "faults \<Rightarrow> db \<Rightarrow> js_error + movie list" where
  "Movies_find flt d = (if flt Find then Inl RepositoryError else Inr (Movies d))"

definition Users_find :: "faults \<Rightarrow> db \<Rightarrow> js_error + user list" where
  "Users_find flt d = (if flt Find then Inl RepositoryError else Inr (Users d))"

definition Movies_findOne :: "faults \<Rightarrow> (movie \<Rightarrow> bool) \<Rightarrow> db \<Rightarrow> js_error + movie option" where
  "Movies_findOne flt P d = (if flt FindOne then Inl RepositoryError else Inr (find P (Movies d)))"

text \<open>The filter \<^verbatim>\<open>{ userName: v }\<close>.\<close>

definition named :: "string option \<Rightarrow> user \<Rightarrow> bool" where
  "named v u = (userName u = v)"

definition Users_findOne :: "faults \<Rightarrow> string option \<Rightarrow> db \<Rightarrow> js_error + user option" where
  "Users_findOne flt v d =
     (if flt FindOne then Inl RepositoryError else Inr (find (named v) (Users d)))"

text \<open>\<^verbatim>\<open>Users.create(doc)\<close>: the document is added to the collection and returned.\<close>

definition Users_create :: "faults \<Rightarrow> user \<Rightarrow> db \<Rightarrow> js_error + (db \<times> user)" where
  "Users_create flt doc d =
     (if flt Create then Inl RepositoryError
      else Inr (d\<lparr>Users := Users d @ [doc]\<rparr>, doc))"

text \<open>
  \<^verbatim>\<open>Users.findOneAndUpdate({ userName: n }, update, { new: true }, callback)\<close>: the first
  matching document is updated in place and handed to the callback as updated, or
  \<^verbatim>\<open>null\<close> when none matches. A failed call changes nothing.
\<close>

definition Users_findOneAndUpdate ::
    "faults \<Rightarrow> string \<Rightarrow> (user \<Rightarrow> user) \<Rightarrow> db \<Rightarrow> js_error + (db \<times> user option)" where
  "Users_findOneAndUpdate flt n f d =
     (if flt FindOneAndUpdate then Inl RepositoryError
      else Inr (d\<lparr>Users := fst (updateFirst (named (Some n)) f (Users d))\<rparr>,
                snd (updateFirst (named (Some n)) f (Users d))))"

definition Users_findOneAndRemove :: "faults \<Rightarrow> string \<Rightarrow> db \<Rightarrow> js_error + (db \<times> user option)" where
  "Users_findOneAndRemove flt n d =
     (if flt FindOneAndRemove then Inl RepositoryError
      else Inr (d\<lparr>Users := fst (removeFirst (named (Some n)) (Users d))\<rparr>,
                snd (removeFirst (named (Some n)) (Users d))))"

text \<open>The update operators of the three mutating calls.\<close>

definition assign :: "env \<Rightarrow> 'a option \<Rightarrow> 'a option \<Rightarrow> 'a option" where
  "assign e old new =
     (case new of Some v \<Rightarrow> Some v | None \<Rightarrow> (if omitUndefined e then old else None))"

definition set_profile :: "env \<Rightarrow> request \<Rightarrow> user \<Rightarrow> user" where
  "set_profile e rq u =
     u\<lparr>userName := assign e (userName u) (req_body rq ''userName''),
       password := assign e (password u) (req_body rq ''password''),
       email := assign e (email u) (req_body rq ''email''),
       Birthday := assign e (Birthday u) (req_body rq ''birthday'')\<rparr>"

definition push_favorite :: "string \<Rightarrow> user \<Rightarrow> user" where
  "push_favorite m u = u\<lparr>FavoriteMovies := FavoriteMovies u @ [m]\<rparr>"

definition pull_favorite :: "string \<Rightarrow> user \<Rightarrow> user" where
  "pull_favorite m u = u\<lparr>FavoriteMovies := filter (\<lambda>x. x \<noteq> m) (FavoriteMovies u)\<rparr>"

section \<open>Text\<close>

text \<open>Lower case of the letters A to Z; every other character stays.\<close>

definition upper_case :: string where
  "upper_case = ''ABCDEFGHIJKLMNOPQRSTUVWXYZ''"

definition lower_case :: string where
  "lower_case = ''abcdefghijklmnopqrstuvwxyz''"

definition toLowerCase :: "string \<Rightarrow> string" where
  "toLowerCase s =
     map (\<lambda>c. case map_of (zip upper_case lower_case) c of None \<Rightarrow> c | Some l \<Rightarrow> l) s"

section \<open>The validation chain\<close>

datatype validator = IsLength_min nat | IsAlphanumeric | Not_isEmpty | IsEmail

text \<open>A field that is absent is validated as the empty text.\<close>

definition toString :: "string option \<Rightarrow> string" where
  "toString v = (case v of None \<Rightarrow> [] | Some s \<Rightarrow> s)"

definition alphanumeric :: string where
  "alphanumeric = ''0123456789ABCDEFGHIJKLMNOPQRSTUVWXYZabcdefghijklmnopqrstuvwxyz''"

fun run_validator :: "env \<Rightarrow> validator \<Rightarrow> string \<Rightarrow> bool" where
  "run_validator e (IsLength_min n) s = (n \<le> length s)"
| "run_validator e IsAlphanumeric s = (s \<noteq> [] \<and> list_all (\<lambda>c. c \<in> set alphanumeric) s)"
| "run_validator e Not_isEmpty s = (s \<noteq> [])"
| "run_validator e IsEmail s = isEmail e s"

section \<open>Routes and their middleware\<close>

text \<open>One constructor for each route registered in \<^verbatim>\<open>index.js\<close>, with its path parameters.\<close>

datatype route =
    Home
  | Documentation
  | GetMovies
  | GetUsers
  | GetMovie string
  | GetUser string
  | GetGenre string
  | GetDirector string
  | PostUsers
  | PutUser string
  | PostFavorite string string
  | DeleteUser string
  | DeleteFavorite string string
  | GetFavorites string
  | GetFavoriteMovies string
  | SecretUrl
  | PutFavourite string string

text \<open>
  Path matching. A parameter takes exactly one segment, so no two routes of one verb match
  the same path and the order of registration decides nothing. A literal segment matches
  without regard to the case of its letters, the routing default. The login route,
  registered by \<^verbatim>\<open>auth.js\<close>, is not among them.
\<close>

definition lit :: "string \<Rightarrow> string \<Rightarrow> bool" where
  "lit name seg = (toLowerCase seg = toLowerCase name)"

fun dispatch :: "verb \<Rightarrow> string list \<Rightarrow> route option" where
  "dispatch GET [] = Some Home"
| "dispatch GET [a] =
     (if lit ''documentation'' a then Some Documentation
      else if lit ''movies'' a then Some GetMovies
      else if lit ''users'' a then Some GetUsers
      else if lit ''secreturl'' a then Some SecretUrl
      else None)"
| "dispatch GET [a, b] =
     (if lit ''movies'' a then Some (GetMovie b)
      else if lit ''users'' a then Some (GetUser b)
      else if lit ''genres'' a then Some (GetGenre b)
      else if lit ''directors'' a then Some (GetDirector b)
      else None)"
| "dispatch GET [a, b, c] =
     (if lit ''users'' a \<and> lit ''favorites'' b then Some (GetFavorites c)
      else if lit ''users'' a \<and> lit ''favoriteMovies'' b then Some (GetFavoriteMovies c)
      else None)"
| "dispatch POST [a] = (if lit ''users'' a then Some PostUsers else None)"
| "dispatch POST [a, b, c, d] =
     (if lit ''users'' a \<and> lit ''favoriteMovies'' c then Some (PostFavorite b d) else None)"
| "dispatch PUT [a, b] = (if lit ''users'' a then Some (PutUser b) else None)"
| "dispatch PUT [a, b, c] = (if lit ''users'' a then Some (PutFavourite b c) else None)"
| "dispatch DELETE [a, b] = (if lit ''users'' a then Some (DeleteUser b) else None)"
| "dispatch DELETE [a, b, c, d] =
     (if lit ''users'' a \<and> lit ''movies'' c then Some (DeleteFavorite b d) else None)"
| "dispatch _ _ = None"

text \<open>The path parameters of a matched route, under the names \<^verbatim>\<open>index.js\<close> gives them.\<close>

fun params_of :: "route \<Rightarrow> (string \<rightharpoonup> string)" where
  "params_of (GetMovie t) = [''title'' \<mapsto> t]"
| "params_of (GetUser n) = [''Username'' \<mapsto> n]"
| "params_of (GetGenre g) = [''genreName'' \<mapsto> g]"
| "params_of (GetDirector n) = [''Name'' \<mapsto> n]"
| "params_of (PutUser n) = [''Username'' \<mapsto> n]"
| "params_of (PostFavorite n m) = [''userName'' \<mapsto> n, ''MovieID'' \<mapsto> m]"
| "params_of (DeleteUser n) = [''userName'' \<mapsto> n]"
| "params_of (DeleteFavorite n t) = [''userName'' \<mapsto> n, ''title'' \<mapsto> t]"
| "params_of (GetFavorites n) = [''userName'' \<mapsto> n]"
| "params_of (GetFavoriteMovies n) = [''userName'' \<mapsto> n]"
| "params_of (PutFavourite n m) = [''userName'' \<mapsto> n, ''MovieID'' \<mapsto> m]"
| "params_of _ = Map.empty"

text \<open>
  The callbacks a route is registered with, in order: the guard
  \<^verbatim>\<open>passport.authenticate("jwt", { session: false })\<close>, a \<^verbatim>\<open>check(field, message)\<close> with its
  validator, and the request callback.
\<close>

datatype middleware = Passport_jwt | Check string string validator | Endpoint

fun middlewares :: "route \<Rightarrow> middleware list" where
  "middlewares Home = [Endpoint]"
| "middlewares Documentation = [Endpoint]"
| "middlewares GetMovies = [Passport_jwt, Endpoint]"
| "middlewares GetUsers = [Passport_jwt, Endpoint]"
| "middlewares (GetMovie t) = [Passport_jwt, Endpoint]"
| "middlewares (GetUser n) = [Passport_jwt, Endpoint]"
| "middlewares (GetGenre g) = [Passport_jwt, Endpoint]"
| "middlewares (GetDirector n) = [Passport_jwt, Endpoint]"
| "middlewares PostUsers =
     [Check ''userName'' ''Username is required'' (IsLength_min 5),
      Check ''userName'' ''Username contains non alphanumeric characters - not allowed.''
        IsAlphanumeric,
      Check ''password'' ''Password is required'' Not_isEmpty,
      Check ''email'' ''Email does not appear to be valid'' IsEmail,
      Endpoint]"
| "middlewares (PutUser n) = [Passport_jwt, Endpoint]"
| "middlewares (PostFavorite n m) = [Passport_jwt, Endpoint]"
| "middlewares (DeleteUser n) = [Passport_jwt, Endpoint]"
| "middlewares (DeleteFavorite n t) = [Endpoint]"
| "middlewares (GetFavorites n) = [Passport_jwt, Endpoint]"
| "middlewares (GetFavoriteMovies n) = [Passport_jwt, Endpoint]"
| "middlewares SecretUrl = [Endpoint]"
| "middlewares (PutFavourite n m) = [Passport_jwt, Endpoint]"

text \<open>What the router and the middleware have attached to the request so far.\<close>

record ctx =
  ctx_user :: "string option"
  ctx_errors :: "verror list"
  ctx_params :: "string \<rightharpoonup> string"

text \<open>
  A check made with \<^verbatim>\<open>check(field, message)\<close> looks for its field in the body, the
  cookies, the headers (under the lower-case name), the path parameters and the query
  string. Every place that holds a value for the field is validated; when none does, the
  body's missing value is validated alone. Each failing instance is recorded with its
  value, the message, the name it was read under and its place.
\<close>

fun field_at :: "ctx \<Rightarrow> request \<Rightarrow> string \<Rightarrow> location \<Rightarrow> string \<times> string option" where
  "field_at c rq f Body = (f, req_body rq f)"
| "field_at c rq f Cookies = (f, req_cookies rq f)"
| "field_at c rq f Headers = (toLowerCase f, req_headers rq (toLowerCase f))"
| "field_at c rq f Params = (f, ctx_params c f)"
| "field_at c rq f Query = (f, req_query rq f)"

definition instances :: "ctx \<Rightarrow> request \<Rightarrow> string \<Rightarrow> (location \<times> string \<times> string option) list" where
  "instances c rq f =
     (let withValue =
        filter (\<lambda>i. snd (snd i) \<noteq> None)
          (map (\<lambda>l. (l, field_at c rq f l)) [Body, Cookies, Headers, Params, Query])
      in if withValue = [] then [(Body, field_at c rq f Body)] else withValue)"

definition check_errors :: "env \<Rightarrow> ctx \<Rightarrow> request \<Rightarrow> string \<Rightarrow> string \<Rightarrow> validator \<Rightarrow> verror list" where
  "check_errors e c rq f m v =
     map (\<lambda>i. \<lparr>err_value = snd (snd i), err_msg = m, err_param = fst (snd i),
                err_location = fst i\<rparr>)
       (filter (\<lambda>i. \<not> run_validator e v (toString (snd (snd i)))) (instances c rq f))"

text \<open>
  Modelled from the spec: the guard is the passport library configured by
  \<^verbatim>\<open>passport.js\<close>, neither of them in the source at hand. Following the Auth Guard
  contract, a credential that does not verify ends the request with the unauthorized
  response and the rest of the chain is not run; one that verifies attaches the principal
  and passes on. A check never responds: it records its violations and passes on. \<open>h\<close>
  is the request callback.
\<close>

fun run_chain ::
    "env \<Rightarrow> (ctx \<Rightarrow> request \<Rightarrow> db \<Rightarrow> db \<times> outcome) \<Rightarrow> middleware list \<Rightarrow> ctx \<Rightarrow> request \<Rightarrow> db
      \<Rightarrow> db \<times> outcome" where
  "run_chain e h [] c rq d = (d, Responded 404 No_route)"
| "run_chain e h (Passport_jwt # ms) c rq d =
     (case verify e (req_authorization rq) of
        None \<Rightarrow> (d, Responded 401 (Text ''Unauthorized''))
      | Some p \<Rightarrow> run_chain e h ms (c\<lparr>ctx_user := Some p\<rparr>) rq d)"
| "run_chain e h (Check f m v # ms) c rq d =
     run_chain e h ms (c\<lparr>ctx_errors := ctx_errors c @ check_errors e c rq f m v\<rparr>) rq d"
| "run_chain e h (Endpoint # ms) c rq d = h c rq d"

section \<open>Request callbacks\<close>

definition get_movies :: "faults \<Rightarrow> db \<Rightarrow> db \<times> outcome" where
  "get_movies flt d =
     (case Movies_find flt d of
        Inr movies \<Rightarrow> (d, Responded 200 (Movies_json movies))
      | Inl err \<Rightarrow> (d, Responded 500 (Failure ''Error: '' err)))"

text \<open>
  The \<^verbatim>\<open>catch\<close> callbacks of \<^verbatim>\<open>GET /users\<close> and \<^verbatim>\<open>GET /users/:Username\<close> build their
  message from \<^verbatim>\<open>error\<close>, a name that is not declared there (the parameter is
  \<^verbatim>\<open>err\<close>): the callback throws before \<^verbatim>\<open>send\<close> is called.
\<close>

definition get_users :: "faults \<Rightarrow> db \<Rightarrow> db \<times> outcome" where
  "get_users flt d =
     (case Users_find flt d of
        Inr users \<Rightarrow> (d, Responded 200 (Users_json users))
      | Inl err \<Rightarrow> (d, Unanswered ReferenceError))"

definition get_movie :: "faults \<Rightarrow> string \<Rightarrow> db \<Rightarrow> db \<times> outcome" where
  "get_movie flt title d =
     (case Movies_findOne flt (\<lambda>m. Title m = title) d of
        Inr movie \<Rightarrow> (d, Responded 200 (Movie_json movie))
      | Inl err \<Rightarrow> (d, Responded 500 (Failure ''Error'' err)))"

definition get_user :: "faults \<Rightarrow> string \<Rightarrow> db \<Rightarrow> db \<times> outcome" where
  "get_user flt n d =
     (case Users_findOne flt (Some n) d of
        Inr u \<Rightarrow> (d, Responded 200 (User_json u))
      | Inl err \<Rightarrow> (d, Unanswered ReferenceError))"

text \<open>
  \<^verbatim>\<open>res.json(movie.Genre)\<close> inside \<^verbatim>\<open>then\<close>: when no movie matches, \<^verbatim>\<open>movie\<close> is
  \<^verbatim>\<open>null\<close>, the property read throws and the promise is rejected into \<^verbatim>\<open>catch\<close>.
\<close>

definition get_genre :: "faults \<Rightarrow> string \<Rightarrow> db \<Rightarrow> db \<times> outcome" where
  "get_genre flt g d =
     (case Movies_findOne flt (\<lambda>m. Genre_Name (Genre m) = g) d of
        Inr (Some m) \<Rightarrow> (d, Responded 200 (Genre_json (Genre m)))
      | Inr None \<Rightarrow> (d, Responded 500 (Failure ''Error'' TypeError))
      | Inl err \<Rightarrow> (d, Responded 500 (Failure ''Error'' err)))"

definition get_director :: "faults \<Rightarrow> string \<Rightarrow> db \<Rightarrow> db \<times> outcome" where
  "get_director flt n d =
     (case Movies_findOne flt (\<lambda>m. Director_Name (Director m) = n) d of
        Inr (Some m) \<Rightarrow> (d, Responded 200 (Director_json (Director m)))
      | Inr None \<Rightarrow> (d, Responded 500 (Failure ''Error'' TypeError))
      | Inl err \<Rightarrow> (d, Responded 500 (Failure ''Error'' err)))"

text \<open>
  \<^verbatim>\<open>POST /users\<close>. The callback first reads the violations the checks recorded. The
  password of the body is hashed before the lookup; \<^verbatim>\<open>hashPassword\<close> of a missing
  password throws in the callback itself and reaches the error-handling middleware of the
  file (the checks pass without a password in the body when another place of the request
  holds one). The created document has no favourites yet.
\<close>

definition post_users :: "env \<Rightarrow> faults \<Rightarrow> ctx \<Rightarrow> request \<Rightarrow> db \<Rightarrow> db \<times> outcome" where
  "post_users e flt c rq d =
     (if ctx_errors c \<noteq> [] then (d, Responded 422 (Errors_json (ctx_errors c)))
      else case req_body rq ''password'' of
        None \<Rightarrow> (d, Responded 500 (Text ''Error founded, fix it!''))
      | Some pw \<Rightarrow>
          (let hashedPassword = hashPassword e pw in
           case Users_findOne flt (req_body rq ''userName'') d of
             Inl error \<Rightarrow> (d, Responded 500 (Failure ''Error: '' error))
           | Inr (Some u) \<Rightarrow>
               (d, Responded 400 (Text (toString (req_body rq ''userName'') @ ''already exists'')))
           | Inr None \<Rightarrow>
               (case Users_create flt
                  \<lparr>userName = req_body rq ''userName'',
                   password = Some hashedPassword,
                   email = req_body rq ''email'',
                   Birthday = req_body rq ''Birthday'',
                   FavoriteMovies = []\<rparr> d of
                  Inl error \<Rightarrow> (d, Responded 500 (Failure ''Error: '' error))
                | Inr (d', u) \<Rightarrow> (d', Responded 201 (User_json (Some u))))))"

definition put_user :: "env \<Rightarrow> faults \<Rightarrow> string \<Rightarrow> request \<Rightarrow> db \<Rightarrow> db \<times> outcome" where
  "put_user e flt n rq d =
     (case Users_findOneAndUpdate flt n (set_profile e rq) d of
        Inl err \<Rightarrow> (d, Responded 500 (Failure ''Error: '' err))
      | Inr (d', updatedUser) \<Rightarrow> (d', Responded 200 (User_json updatedUser)))"

definition post_favorite :: "faults \<Rightarrow> string \<Rightarrow> string \<Rightarrow> db \<Rightarrow> db \<times> outcome" where
  "post_favorite flt n m d =
     (case Users_findOneAndUpdate flt n (push_favorite m) d of
        Inl err \<Rightarrow> (d, Responded 500 (Failure ''Error: '' err))
      | Inr (d', updatedUser) \<Rightarrow> (d', Responded 200 (User_json updatedUser)))"

definition delete_user :: "faults \<Rightarrow> string \<Rightarrow> db \<Rightarrow> db \<times> outcome" where
  "delete_user flt n d =
     (case Users_findOneAndRemove flt n d of
        Inl err \<Rightarrow> (d, Responded 500 (Failure ''Error'' err))
      | Inr (d', None) \<Rightarrow> (d', Responded 400 (Text (n @ '' was not found'')))
      | Inr (d', Some u) \<Rightarrow> (d', Responded 200 (Text (n @ '' was deleted''))))"

definition delete_favorite :: "faults \<Rightarrow> string \<Rightarrow> string \<Rightarrow> db \<Rightarrow> db \<times> outcome" where
  "delete_favorite flt n t d =
     (case Users_findOneAndUpdate flt n (pull_favorite t) d of
        Inl err \<Rightarrow> (d, Responded 500 (Failure ''Error'' err))
      | Inr (d', updatedUser) \<Rightarrow> (d', Responded 200 (User_json updatedUser)))"

text \<open>\<^verbatim>\<open>user.FavoriteMovies\<close> of a \<^verbatim>\<open>null\<close> user throws inside \<^verbatim>\<open>then\<close>, as above.\<close>

definition get_favorites :: "faults \<Rightarrow> string \<Rightarrow> db \<Rightarrow> db \<times> outcome" where
  "get_favorites flt n d =
     (case Users_findOne flt (Some n) d of
        Inr (Some u) \<Rightarrow> (d, Responded 200 (Favorites_json (FavoriteMovies u)))
      | Inr None \<Rightarrow> (d, Responded 500 (Failure ''Error: '' TypeError))
      | Inl error \<Rightarrow> (d, Responded 500 (Failure ''Error: '' error)))"

text \<open>The request callback of each route.\<close>

fun endpoint :: "env \<Rightarrow> faults \<Rightarrow> route \<Rightarrow> ctx \<Rightarrow> request \<Rightarrow> db \<Rightarrow> db \<times> outcome" where
  "endpoint e flt Home c rq d = (d, Responded 200 (Text ''Hello, welcome to myFlix App.''))"
| "endpoint e flt Documentation c rq d = (d, Responded 200 (File ''/public/documentation.html''))"
| "endpoint e flt GetMovies c rq d = get_movies flt d"
| "endpoint e flt GetUsers c rq d = get_users flt d"
| "endpoint e flt (GetMovie t) c rq d = get_movie flt t d"
| "endpoint e flt (GetUser n) c rq d = get_user flt n d"
| "endpoint e flt (GetGenre g) c rq d = get_genre flt g d"
| "endpoint e flt (GetDirector n) c rq d = get_director flt n d"
| "endpoint e flt PostUsers c rq d = post_users e flt c rq d"
| "endpoint e flt (PutUser n) c rq d = put_user e flt n rq d"
| "endpoint e flt (PostFavorite n m) c rq d = post_favorite flt n m d"
| "endpoint e flt (DeleteUser n) c rq d = delete_user flt n d"
| "endpoint e flt (DeleteFavorite n t) c rq d = delete_favorite flt n t d"
| "endpoint e flt (GetFavorites n) c rq d = get_favorites flt n d"
| "endpoint e flt (GetFavoriteMovies n) c rq d = get_favorites flt n d"
| "endpoint e flt SecretUrl c rq d = (d, Responded 200 (Text ''This content is top SECRET''))"
| "endpoint e flt (PutFavourite n m) c rq d = putFavourite e d n m"

section \<open>The application\<close>

definition fresh :: ctx where
  "fresh = \<lparr>ctx_user = None, ctx_errors = [], ctx_params = Map.empty\<rparr>"

text \<open>One request against the repository: the new repository and how the request ended.\<close>

definition handle :: "env \<Rightarrow> faults \<Rightarrow> db \<Rightarrow> request \<Rightarrow> db \<times> outcome" where
  "handle e flt d rq =
     (case dispatch (req_verb rq) (req_path rq) of
        None \<Rightarrow> (d, Responded 404 No_route)
      | Some r \<Rightarrow>
          run_chain e (endpoint e flt r) (middlewares r) (fresh\<lparr>ctx_params := params_of r\<rparr>) rq d)"

text \<open>What the checks of registration record for a request, in the order they run.\<close>

fun checks_of :: "middleware list \<Rightarrow> (string \<times> string \<times> validator) list" where
  "checks_of [] = []"
| "checks_of (Check f m v # ms) = (f, m, v) # checks_of ms"
| "checks_of (Passport_jwt # ms) = checks_of ms"
| "checks_of (Endpoint # ms) = checks_of ms"

definition registration_errors :: "env \<Rightarrow> request \<Rightarrow> verror list" where
  "registration_errors e rq =
     concat (map (\<lambda>k. check_errors e fresh rq (fst k) (fst (snd k)) (snd (snd k)))
       (checks_of (middlewares PostUsers)))"

text \<open>Requests served one after the other, each with its own faults.\<close>

fun serve_all :: "env \<Rightarrow> (faults \<times> request) list \<Rightarrow> db \<Rightarrow> db" where
  "serve_all e [] d = d"
| "serve_all e (x # xs) d = serve_all e xs (fst (handle e (fst x) d (snd x)))"

section \<open>Properties stated in the specification's words\<close>

text \<open>A route is protected when the guard is one of its callbacks.\<close>

definition protected :: "route \<Rightarrow> bool" where
  "protected r = (Passport_jwt \<in> set (middlewares r))"

text \<open>
  The field rules of registration as the specification lists them: Username required and
  at least 5 characters, Username alphanumeric only, Password non-empty, Email
  syntactically valid. A payload \<open>b\<close> violates a rule when the field's text in the
  payload breaks it. \<open>violations\<close> is the full list of the violated ones, in the order
  the rules are declared.
\<close>

datatype field_rule = Username_min5 | Username_alphanumeric | Password_required | Email_valid

fun violated :: "env \<Rightarrow> (string \<rightharpoonup> string) \<Rightarrow> field_rule \<Rightarrow> bool" where
  "violated e b Username_min5 = (length (toString (b ''userName'')) < 5)"
| "violated e b Username_alphanumeric =
     (toString (b ''userName'') = [] \<or>
      \<not> list_all (\<lambda>c. c \<in> set alphanumeric) (toString (b ''userName'')))"
| "violated e b Password_required = (toString (b ''password'') = [])"
| "violated e b Email_valid = (\<not> isEmail e (toString (b ''email'')))"







text \<open>
  A call of the Favorites Manager for another movie reference than \<open>m\<close>: a request
  that reaches the route adding a favourite or the route removing one, for any user, with
  a reference different from \<open>m\<close>.
\<close>

definition other_favorite_call :: "string \<Rightarrow> request \<Rightarrow> bool" where
  "other_favorite_call m rq =
     (case dispatch (req_verb rq) (req_path rq) of
        Some (PostFavorite n' m') \<Rightarrow> m' \<noteq> m
      | Some (DeleteFavorite n' m') \<Rightarrow> m' \<noteq> m
      | _ \<Rightarrow> False)"

section \<open>The scenario of the specification\<close>

text \<open>
  The concrete scenario of the specification's testable properties: the user
  \<^verbatim>\<open>MovieFan1\<close> registered with the password \<^verbatim>\<open>hunter2\<close> and the address
  \<^verbatim>\<open>a@b.com\<close>. The collaborators are stand-ins: one credential verifies, the hash
  reverses the password behind a prefix, an address is valid when it has an at sign.
\<close>

definition scenario_env :: env where
  "scenario_env =
     \<lparr>verify = (\<lambda>c. if c = Some ''Bearer MovieFan1'' then Some ''MovieFan1'' else None),
      hashPassword = (\<lambda>p. ''$2b$10$'' @ rev p),
      isEmail = (\<lambda>s. CHR ''@'' \<in> set s),
      omitUndefined = False,
      putFavourite = (\<lambda>d n m. (d, Responded 500 (Failure ''Error: '' TypeError)))\<rparr>"

definition no_faults :: faults where
  "no_faults = (\<lambda>c. False)"

definition scenario_user :: user where
  "scenario_user =
     \<lparr>userName = Some ''MovieFan1'', password = Some ''$2b$10$2retnuh'',
      email = Some ''a@b.com'', Birthday = None, FavoriteMovies = []\<rparr>"

definition scenario_movie :: movie where
  "scenario_movie =
     \<lparr>Title = ''Lost'',
      Genre = \<lparr>Genre_Name = ''Drama'', Genre_Description = ''Serious stories''\<rparr>,
      Director = \<lparr>Director_Name = ''Alan Ball'', Director_Bio = ''Writer and director''\<rparr>\<rparr>"

definition scenario_db :: db where
  "scenario_db = \<lparr>Users = [scenario_user], Movies = [scenario_movie]\<rparr>"

text \<open>
  A response signals not-found when its status is one of the two the specification's
  error taxonomy gives a missing user or movie: 400 or 404.
\<close>

definition not_found_signal :: "outcome \<Rightarrow> bool" where
  "not_found_signal out = (case out of Responded s b \<Rightarrow> s = 400 \<or> s = 404 | Unanswered x \<Rightarrow> False)"

section \<open>The guard\<close>

text \<open>A literal segment matches itself; on given text the match is decided by computation.\<close>

lemma lit_same [simp]: "lit name name"
  by (simp add: lit_def)

lemmas lit_eval = lit_def toLowerCase_def upper_case_def lower_case_def

text \<open>The protected routes are all but the home page, the documentation, the test page,
  registration and the removal of a favourite.\<close>

lemma protected_routes:
  "protected r =
     (r \<notin> {Home, Documentation, SecretUrl, PostUsers} \<and> (\<forall>n t. r \<noteq> DeleteFavorite n t))"
  by (cases r) (simp_all add: protected_def)

text \<open>
  Claim C2. A request to a protected route whose credential does not verify (missing,
  malformed, rejected or expired) is answered 401, whatever the request callback \<open>h\<close>
  is (it is not invoked), and the repository is left as it was.
\<close>

theorem guard_rejects:
  assumes "dispatch (req_verb rq) (req_path rq) = Some r"
    and "protected r"
    and "verify e (req_authorization rq) = None"
  shows "run_chain e h (middlewares r) fresh rq d = (d, Responded 401 (Text ''Unauthorized''))
    \<and> handle e flt d rq = (d, Responded 401 (Text ''Unauthorized''))"
  using assms by (cases r) (simp_all add: handle_def protected_def)

theorem guard_rejects_witness:
  "handle scenario_env no_faults scenario_db
     \<lparr>req_verb = DELETE, req_path = [''users'', ''MovieFan1''], req_authorization = None,
      req_body = Map.empty,
      req_query = Map.empty, req_headers = Map.empty, req_cookies = Map.empty\<rparr>
   = (scenario_db, Responded 401 (Text ''Unauthorized''))"
  using guard_rejects [of "\<lparr>req_verb = DELETE, req_path = [''users'', ''MovieFan1''],
      req_authorization = None, req_body = Map.empty,
      req_query = Map.empty, req_headers = Map.empty, req_cookies = Map.empty\<rparr>" "DeleteUser ''MovieFan1''" scenario_env
      "endpoint scenario_env no_faults (DeleteUser ''MovieFan1'')" scenario_db no_faults]
  by (simp add: lit_eval protected_def scenario_env_def)

section \<open>Registration\<close>

text \<open>The checks of \<^verbatim>\<open>POST /users\<close> record their violations, and pass on.\<close>

lemma check_errors_ctx [simp]:
  "check_errors e (c\<lparr>ctx_errors := x\<rparr>) rq f m v = check_errors e c rq f m v"
  by (simp add: check_errors_def instances_def)

lemma fresh_fields [simp]:
  "ctx_errors fresh = []" "ctx_params fresh = Map.empty" "ctx_user fresh = None"
  by (simp_all add: fresh_def)

lemma fresh_params [simp]: "fresh\<lparr>ctx_params := Map.empty\<rparr> = fresh"
  by (simp add: fresh_def)

lemma checks_record:
  "run_chain e h (middlewares PostUsers) fresh rq d =
     h (fresh\<lparr>ctx_errors := registration_errors e rq\<rparr>) rq d"
  by (simp add: registration_errors_def)

lemma handle_PostUsers:
  "dispatch (req_verb rq) (req_path rq) = Some PostUsers \<Longrightarrow>
   handle e flt d rq = post_users e flt (fresh\<lparr>ctx_errors := registration_errors e rq\<rparr>) rq d"
  by (simp add: handle_def checks_record del: middlewares.simps)

lemma toLowerCase_fields [simp]:
  "toLowerCase ''userName'' = ''username''"
  "toLowerCase ''password'' = ''password''"
  "toLowerCase ''email'' = ''email''"
  by (simp_all add: toLowerCase_def upper_case_def lower_case_def)












section \<open>Facts about the repository primitives\<close>

lemma handle_route:
  "dispatch (req_verb rq) (req_path rq) = Some r \<Longrightarrow>
   handle e flt d rq =
     run_chain e (endpoint e flt r) (middlewares r) (fresh\<lparr>ctx_params := params_of r\<rparr>) rq d"
  by (simp add: handle_def)

lemma updateFirst_snd: "snd (updateFirst P f xs) = map_option f (find P xs)"
  by (induction xs) simp_all

lemma updateFirst_none: "find P xs = None \<Longrightarrow> fst (updateFirst P f xs) = xs"
  by (induction xs) (simp_all split: if_splits)

lemma find_updateFirst_same:
  "(\<And>x. P (f x) = P x) \<Longrightarrow> find P (fst (updateFirst P f xs)) = map_option f (find P xs)"
  by (induction xs) simp_all

lemma find_updateFirst_other:
  "(\<And>x. Q x \<Longrightarrow> \<not> P x \<and> \<not> P (f x)) \<Longrightarrow> find P (fst (updateFirst Q f xs)) = find P xs"
  by (induction xs) auto

lemma named_push [simp]: "named v (push_favorite m u) = named v u"
  by (simp add: named_def push_favorite_def)

lemma named_pull [simp]: "named v (pull_favorite m u) = named v u"
  by (simp add: named_def pull_favorite_def)

lemma find_after_update:
  assumes "\<And>v x. named v (f x) = named v x"
  shows "find (named (Some n)) (fst (updateFirst (named (Some n')) f xs)) =
     (if n' = n then map_option f (find (named (Some n)) xs) else find (named (Some n)) xs)"
proof (cases "n' = n")
  case True
  then show ?thesis by (simp add: find_updateFirst_same assms)
next
  case False
  have "\<not> named (Some n) x \<and> \<not> named (Some n) (f x)" if "named (Some n') x" for x
  proof -
    from that False have "\<not> named (Some n) x" by (auto simp: named_def)
    then show ?thesis by (simp add: assms)
  qed
  then have "find (named (Some n)) (fst (updateFirst (named (Some n')) f xs)) = find (named (Some n)) xs"
    by (rule find_updateFirst_other)
  with False show ?thesis by simp
qed

section \<open>The favourites routes\<close>

lemma handle_PostFavorite:
  assumes "dispatch (req_verb rq) (req_path rq) = Some (PostFavorite n m)"
    and "verify e (req_authorization rq) \<noteq> None"
    and "\<not> flt FindOneAndUpdate"
  shows "handle e flt d rq =
      (d\<lparr>Users := fst (updateFirst (named (Some n)) (push_favorite m) (Users d))\<rparr>,
       Responded 200 (User_json (map_option (push_favorite m) (find (named (Some n)) (Users d)))))"
  using assms
  by (auto simp: handle_def post_favorite_def Users_findOneAndUpdate_def updateFirst_snd)

lemma handle_DeleteFavorite:
  assumes "dispatch (req_verb rq) (req_path rq) = Some (DeleteFavorite n m)"
    and "\<not> flt FindOneAndUpdate"
  shows "handle e flt d rq =
      (d\<lparr>Users := fst (updateFirst (named (Some n)) (pull_favorite m) (Users d))\<rparr>,
       Responded 200 (User_json (map_option (pull_favorite m) (find (named (Some n)) (Users d)))))"
  using assms
  by (simp add: handle_def delete_favorite_def Users_findOneAndUpdate_def updateFirst_snd)

lemma handle_GetFavorites:
  assumes "dispatch (req_verb rq) (req_path rq) = Some (GetFavorites n)"
    and "verify e (req_authorization rq) \<noteq> None"
    and "\<not> flt FindOne"
  shows "handle e flt d rq =
      (case find (named (Some n)) (Users d) of
         Some u \<Rightarrow> (d, Responded 200 (Favorites_json (FavoriteMovies u)))
       | None \<Rightarrow> (d, Responded 500 (Failure ''Error: '' TypeError)))"
  using assms
  by (auto simp: handle_def get_favorites_def Users_findOne_def split: option.splits)

lemma Users_after_PostFavorite:
  assumes "dispatch (req_verb rq) (req_path rq) = Some (PostFavorite n' m')"
  shows "Users (fst (handle e f d rq)) = Users d
    \<or> Users (fst (handle e f d rq)) = fst (updateFirst (named (Some n')) (push_favorite m') (Users d))"
  using assms
  by (auto simp: handle_def post_favorite_def Users_findOneAndUpdate_def split: option.splits)

lemma Users_after_DeleteFavorite:
  assumes "dispatch (req_verb rq) (req_path rq) = Some (DeleteFavorite n' m')"
  shows "Users (fst (handle e f d rq)) = Users d
    \<or> Users (fst (handle e f d rq)) = fst (updateFirst (named (Some n')) (pull_favorite m') (Users d))"
  using assms
  by (auto simp: handle_def delete_favorite_def Users_findOneAndUpdate_def)

lemma other_call_preserves:
  assumes "other_favorite_call m rq"
    and "find (named (Some n)) (Users d) = Some u"
    and "(m \<in> set (FavoriteMovies u)) = b"
  shows "\<exists>u'. find (named (Some n)) (Users (fst (handle e f d rq))) = Some u'
    \<and> (m \<in> set (FavoriteMovies u')) = b"
proof (cases "dispatch (req_verb rq) (req_path rq)")
  case None
  with assms(1) show ?thesis by (simp add: other_favorite_call_def)
next
  case (Some r)
  show ?thesis
  proof (cases r)
    case (PostFavorite n' m')
    with Some assms(1) have ne: "m' \<noteq> m" by (simp add: other_favorite_call_def)
    from Users_after_PostFavorite [of rq n' m' e f d] Some PostFavorite
    have "Users (fst (handle e f d rq)) = Users d
      \<or> Users (fst (handle e f d rq)) = fst (updateFirst (named (Some n')) (push_favorite m') (Users d))"
      by simp
    then show ?thesis
    proof
      assume "Users (fst (handle e f d rq)) = Users d"
      with assms(2,3) show ?thesis by simp
    next
      assume "Users (fst (handle e f d rq)) =
        fst (updateFirst (named (Some n')) (push_favorite m') (Users d))"
      then have "find (named (Some n)) (Users (fst (handle e f d rq))) =
          (if n' = n then Some (push_favorite m' u) else Some u)"
        using assms(2) by (simp add: find_after_update)
      with assms(3) ne show ?thesis by (auto simp: push_favorite_def)
    qed
  next
    case (DeleteFavorite n' m')
    with Some assms(1) have ne: "m' \<noteq> m" by (simp add: other_favorite_call_def)
    from Users_after_DeleteFavorite [of rq n' m' e f d] Some DeleteFavorite
    have "Users (fst (handle e f d rq)) = Users d
      \<or> Users (fst (handle e f d rq)) = fst (updateFirst (named (Some n')) (pull_favorite m') (Users d))"
      by simp
    then show ?thesis
    proof
      assume "Users (fst (handle e f d rq)) = Users d"
      with assms(2,3) show ?thesis by simp
    next
      assume "Users (fst (handle e f d rq)) =
        fst (updateFirst (named (Some n')) (pull_favorite m') (Users d))"
      then have "find (named (Some n)) (Users (fst (handle e f d rq))) =
          (if n' = n then Some (pull_favorite m' u) else Some u)"
        using assms(2) by (simp add: find_after_update)
      with assms(3) ne show ?thesis by (auto simp: pull_favorite_def)
    qed
  qed (use Some assms(1) in \<open>simp_all add: other_favorite_call_def\<close>)
qed

lemma other_calls_preserve:
  assumes "list_all (\<lambda>x. other_favorite_call m (snd x)) ops"
    and "find (named (Some n)) (Users d) = Some u"
    and "(m \<in> set (FavoriteMovies u)) = b"
  shows "\<exists>u'. find (named (Some n)) (Users (serve_all e ops d)) = Some u'
    \<and> (m \<in> set (FavoriteMovies u')) = b"
  using assms
proof (induction ops arbitrary: d u)
  case Nil
  then show ?case by simp
next
  case (Cons x ops)
  from Cons.prems(1) have x: "other_favorite_call m (snd x)"
    and rest: "list_all (\<lambda>x. other_favorite_call m (snd x)) ops" by simp_all
  from other_call_preserves [OF x Cons.prems(2,3), of e "fst x"]
  obtain u' where u': "find (named (Some n)) (Users (fst (handle e (fst x) d (snd x)))) = Some u'"
    "(m \<in> set (FavoriteMovies u')) = b" by blast
  from Cons.IH [OF rest u'] show ?case by simp
qed

text \<open>
  Claim C5, as the code has it. Absent a repository error (and with a credential that
  verifies, where the route is guarded): for a user name that matches no stored user,
  adding and removing a favourite answer 200 with a null body and leave the repository as
  it was; for a name that matches a stored user, adding and removing answer with that
  user's updated record and listing answers with the user's current favourites.
\<close>

theorem favorites_by_user_presence:
  assumes "\<not> flt FindOneAndUpdate" and "\<not> flt FindOne"
    and "dispatch (req_verb rqa) (req_path rqa) = Some (PostFavorite n m)"
    and "verify e (req_authorization rqa) \<noteq> None"
    and "dispatch (req_verb rqr) (req_path rqr) = Some (DeleteFavorite n m)"
    and "dispatch (req_verb rql) (req_path rql) = Some (GetFavorites n)"
    and "verify e (req_authorization rql) \<noteq> None"
  shows "(Some n \<notin> userName ` set (Users d) \<longrightarrow>
           handle e flt d rqa = (d, Responded 200 (User_json None))
         \<and> handle e flt d rqr = (d, Responded 200 (User_json None)))
    \<and> (\<forall>u. find (named (Some n)) (Users d) = Some u \<longrightarrow>
           snd (handle e flt d rqa) = Responded 200 (User_json (Some (push_favorite m u)))
         \<and> snd (handle e flt d rqr) = Responded 200 (User_json (Some (pull_favorite m u)))
         \<and> handle e flt d rql = (d, Responded 200 (Favorites_json (FavoriteMovies u))))"
proof -
  have a: "handle e flt d rqa =
      (d\<lparr>Users := fst (updateFirst (named (Some n)) (push_favorite m) (Users d))\<rparr>,
       Responded 200 (User_json (map_option (push_favorite m) (find (named (Some n)) (Users d)))))"
    using assms by (simp add: handle_PostFavorite)
  have r: "handle e flt d rqr =
      (d\<lparr>Users := fst (updateFirst (named (Some n)) (pull_favorite m) (Users d))\<rparr>,
       Responded 200 (User_json (map_option (pull_favorite m) (find (named (Some n)) (Users d)))))"
    using assms by (simp add: handle_DeleteFavorite)
  have l: "handle e flt d rql =
      (case find (named (Some n)) (Users d) of
         Some u \<Rightarrow> (d, Responded 200 (Favorites_json (FavoriteMovies u)))
       | None \<Rightarrow> (d, Responded 500 (Failure ''Error: '' TypeError)))"
    using assms by (simp add: handle_GetFavorites)
  have absent: "find (named (Some n)) (Users d) = None" if "Some n \<notin> userName ` set (Users d)"
    using that by (force simp: find_None_iff named_def)
  show ?thesis
    by (auto simp: a r l absent updateFirst_none)
qed

theorem favorites_by_user_presence_witness:
  "handle scenario_env no_faults scenario_db
     \<lparr>req_verb = POST, req_path = [''users'', ''Nobody1'', ''favoriteMovies'', ''abc123''],
      req_authorization = Some ''Bearer MovieFan1'', req_body = Map.empty,
      req_query = Map.empty, req_headers = Map.empty, req_cookies = Map.empty\<rparr>
   = (scenario_db, Responded 200 (User_json None))
   \<and> handle scenario_env no_faults scenario_db
     \<lparr>req_verb = DELETE, req_path = [''users'', ''Nobody1'', ''movies'', ''abc123''],
      req_authorization = None, req_body = Map.empty,
      req_query = Map.empty, req_headers = Map.empty, req_cookies = Map.empty\<rparr>
   = (scenario_db, Responded 200 (User_json None))
   \<and> snd (handle scenario_env no_faults scenario_db
     \<lparr>req_verb = POST, req_path = [''users'', ''MovieFan1'', ''favoriteMovies'', ''abc123''],
      req_authorization = Some ''Bearer MovieFan1'', req_body = Map.empty,
      req_query = Map.empty, req_headers = Map.empty, req_cookies = Map.empty\<rparr>)
   = Responded 200 (User_json (Some (scenario_user\<lparr>FavoriteMovies := [''abc123'']\<rparr>)))
   \<and> snd (handle scenario_env no_faults scenario_db
     \<lparr>req_verb = DELETE, req_path = [''users'', ''MovieFan1'', ''movies'', ''abc123''],
      req_authorization = None, req_body = Map.empty,
      req_query = Map.empty, req_headers = Map.empty, req_cookies = Map.empty\<rparr>)
   = Responded 200 (User_json (Some scenario_user))
   \<and> handle scenario_env no_faults scenario_db
     \<lparr>req_verb = GET, req_path = [''users'', ''favorites'', ''MovieFan1''],
      req_authorization = Some ''Bearer MovieFan1'', req_body = Map.empty,
      req_query = Map.empty, req_headers = Map.empty, req_cookies = Map.empty\<rparr>
   = (scenario_db, Responded 200 (Favorites_json []))"
  using favorites_by_user_presence [of no_faults
      "\<lparr>req_verb = POST, req_path = [''users'', ''Nobody1'', ''favoriteMovies'', ''abc123''],
        req_authorization = Some ''Bearer MovieFan1'', req_body = Map.empty,
      req_query = Map.empty, req_headers = Map.empty, req_cookies = Map.empty\<rparr>"
      "''Nobody1''" "''abc123''" scenario_env
      "\<lparr>req_verb = DELETE, req_path = [''users'', ''Nobody1'', ''movies'', ''abc123''],
        req_authorization = None, req_body = Map.empty,
      req_query = Map.empty, req_headers = Map.empty, req_cookies = Map.empty\<rparr>"
      "\<lparr>req_verb = GET, req_path = [''users'', ''favorites'', ''Nobody1''],
        req_authorization = Some ''Bearer MovieFan1'', req_body = Map.empty,
      req_query = Map.empty, req_headers = Map.empty, req_cookies = Map.empty\<rparr>" scenario_db]
    favorites_by_user_presence [of no_faults
      "\<lparr>req_verb = POST, req_path = [''users'', ''MovieFan1'', ''favoriteMovies'', ''abc123''],
        req_authorization = Some ''Bearer MovieFan1'', req_body = Map.empty,
      req_query = Map.empty, req_headers = Map.empty, req_cookies = Map.empty\<rparr>"
      "''MovieFan1''" "''abc123''" scenario_env
      "\<lparr>req_verb = DELETE, req_path = [''users'', ''MovieFan1'', ''movies'', ''abc123''],
        req_authorization = None, req_body = Map.empty,
      req_query = Map.empty, req_headers = Map.empty, req_cookies = Map.empty\<rparr>"
      "\<lparr>req_verb = GET, req_path = [''users'', ''favorites'', ''MovieFan1''],
        req_authorization = Some ''Bearer MovieFan1'', req_body = Map.empty,
      req_query = Map.empty, req_headers = Map.empty, req_cookies = Map.empty\<rparr>" scenario_db]
  by (simp add: lit_eval no_faults_def scenario_env_def scenario_db_def scenario_user_def named_def
      push_favorite_def pull_favorite_def)

text \<open>
  Claim C5, as stated, fails: for the name \<^verbatim>\<open>Nobody1\<close>, which matches no stored user,
  adding and removing a favourite both answer 200 with a null body, which is no not-found
  signal.
\<close>

theorem favorites_not_found_counterexample:
  "handle scenario_env no_faults scenario_db
     \<lparr>req_verb = POST, req_path = [''users'', ''Nobody1'', ''favoriteMovies'', ''abc123''],
      req_authorization = Some ''Bearer MovieFan1'', req_body = Map.empty,
      req_query = Map.empty, req_headers = Map.empty, req_cookies = Map.empty\<rparr>
   = (scenario_db, Responded 200 (User_json None))
   \<and> handle scenario_env no_faults scenario_db
     \<lparr>req_verb = DELETE, req_path = [''users'', ''Nobody1'', ''movies'', ''abc123''],
      req_authorization = Some ''Bearer MovieFan1'', req_body = Map.empty,
      req_query = Map.empty, req_headers = Map.empty, req_cookies = Map.empty\<rparr>
   = (scenario_db, Responded 200 (User_json None))
   \<and> \<not> not_found_signal (Responded 200 (User_json None))"
  by (simp add: lit_eval handle_def fresh_def post_favorite_def delete_favorite_def
      Users_findOneAndUpdate_def named_def not_found_signal_def
      no_faults_def scenario_env_def scenario_db_def scenario_user_def)

text \<open>
  Claim C6. For a stored user, with credentials that verify and absent a repository error
  in the three calls themselves: after adding \<open>m\<close>, and then any calls adding or removing
  other references (for any user, failing or not), listing the user's favourites answers
  with a list that contains \<open>m\<close>; after removing \<open>m\<close> next, and again any such calls,
  listing answers with a list that does not contain \<open>m\<close>.
\<close>

theorem add_then_remove_favorite:
  assumes "Some n \<in> userName ` set (Users d)"
    and "\<not> flt FindOneAndUpdate" and "\<not> flt FindOne"
    and "dispatch (req_verb rqa) (req_path rqa) = Some (PostFavorite n m)"
    and "verify e (req_authorization rqa) \<noteq> None"
    and "dispatch (req_verb rqr) (req_path rqr) = Some (DeleteFavorite n m)"
    and "dispatch (req_verb rql) (req_path rql) = Some (GetFavorites n)"
    and "verify e (req_authorization rql) \<noteq> None"
    and "list_all (\<lambda>x. other_favorite_call m (snd x)) ops1"
    and "list_all (\<lambda>x. other_favorite_call m (snd x)) ops2"
  shows "(\<exists>fs. snd (handle e flt (serve_all e ops1 (fst (handle e flt d rqa))) rql)
            = Responded 200 (Favorites_json fs) \<and> m \<in> set fs)
    \<and> (\<exists>fs. snd (handle e flt
            (serve_all e ops2
              (fst (handle e flt (serve_all e ops1 (fst (handle e flt d rqa))) rqr))) rql)
            = Responded 200 (Favorites_json fs) \<and> m \<notin> set fs)"
proof -
  let ?d1 = "fst (handle e flt d rqa)"
  let ?d2 = "serve_all e ops1 ?d1"
  let ?d3 = "fst (handle e flt ?d2 rqr)"
  let ?d4 = "serve_all e ops2 ?d3"
  have listed: "snd (handle e flt d' rql) = Responded 200 (Favorites_json (FavoriteMovies u'))"
    if "find (named (Some n)) (Users d') = Some u'" for d' u'
    using that assms(3,7,8) by (simp add: handle_GetFavorites)
  from assms(1) obtain u where u: "find (named (Some n)) (Users d) = Some u"
    by (cases "find (named (Some n)) (Users d)") (auto simp: find_None_iff named_def)
  have "find (named (Some n)) (Users ?d1) = Some (push_favorite m u)"
    using u assms(2,4,5) by (simp add: handle_PostFavorite find_updateFirst_same)
  moreover have "(m \<in> set (FavoriteMovies (push_favorite m u))) = True"
    by (simp add: push_favorite_def)
  ultimately obtain u2 where u2: "find (named (Some n)) (Users ?d2) = Some u2"
      and in2: "(m \<in> set (FavoriteMovies u2)) = True"
    using other_calls_preserve [OF assms(9), of n ?d1 "push_favorite m u" True e] by blast
  have "find (named (Some n)) (Users ?d3) = Some (pull_favorite m u2)"
    using u2 assms(2,6) by (simp add: handle_DeleteFavorite find_updateFirst_same)
  moreover have "(m \<in> set (FavoriteMovies (pull_favorite m u2))) = False"
    by (simp add: pull_favorite_def)
  ultimately obtain u4 where u4: "find (named (Some n)) (Users ?d4) = Some u4"
      and in4: "(m \<in> set (FavoriteMovies u4)) = False"
    using other_calls_preserve [OF assms(10), of n ?d3 "pull_favorite m u2" False e] by blast
  from listed [OF u2] in2 have "\<exists>fs. snd (handle e flt ?d2 rql)
      = Responded 200 (Favorites_json fs) \<and> m \<in> set fs" by simp
  moreover from listed [OF u4] in4 have "\<exists>fs. snd (handle e flt ?d4 rql)
      = Responded 200 (Favorites_json fs) \<and> m \<notin> set fs" by simp
  ultimately show ?thesis by simp
qed

theorem add_then_remove_favorite_witness:
  "snd (handle scenario_env no_faults
      (serve_all scenario_env
        [(no_faults, \<lparr>req_verb = POST,
            req_path = [''users'', ''MovieFan1'', ''favoriteMovies'', ''def456''],
            req_authorization = Some ''Bearer MovieFan1'', req_body = Map.empty,
      req_query = Map.empty, req_headers = Map.empty, req_cookies = Map.empty\<rparr>)]
        (fst (handle scenario_env no_faults scenario_db
          \<lparr>req_verb = POST, req_path = [''users'', ''MovieFan1'', ''favoriteMovies'', ''abc123''],
           req_authorization = Some ''Bearer MovieFan1'', req_body = Map.empty,
      req_query = Map.empty, req_headers = Map.empty, req_cookies = Map.empty\<rparr>)))
      \<lparr>req_verb = GET, req_path = [''users'', ''favorites'', ''MovieFan1''],
       req_authorization = Some ''Bearer MovieFan1'', req_body = Map.empty,
      req_query = Map.empty, req_headers = Map.empty, req_cookies = Map.empty\<rparr>)
   = Responded 200 (Favorites_json [''abc123'', ''def456''])
   \<and> snd (handle scenario_env no_faults
      (serve_all scenario_env
        [(no_faults, \<lparr>req_verb = DELETE,
            req_path = [''users'', ''MovieFan1'', ''movies'', ''def456''],
            req_authorization = None, req_body = Map.empty,
      req_query = Map.empty, req_headers = Map.empty, req_cookies = Map.empty\<rparr>),
         (no_faults, \<lparr>req_verb = POST,
            req_path = [''users'', ''MovieFan1'', ''favoriteMovies'', ''ghi789''],
            req_authorization = Some ''Bearer MovieFan1'', req_body = Map.empty,
      req_query = Map.empty, req_headers = Map.empty, req_cookies = Map.empty\<rparr>)]
        (fst (handle scenario_env no_faults
          (serve_all scenario_env
            [(no_faults, \<lparr>req_verb = POST,
                req_path = [''users'', ''MovieFan1'', ''favoriteMovies'', ''def456''],
                req_authorization = Some ''Bearer MovieFan1'', req_body = Map.empty,
      req_query = Map.empty, req_headers = Map.empty, req_cookies = Map.empty\<rparr>)]
            (fst (handle scenario_env no_faults scenario_db
              \<lparr>req_verb = POST, req_path = [''users'', ''MovieFan1'', ''favoriteMovies'', ''abc123''],
               req_authorization = Some ''Bearer MovieFan1'', req_body = Map.empty,
      req_query = Map.empty, req_headers = Map.empty, req_cookies = Map.empty\<rparr>)))
          \<lparr>req_verb = DELETE, req_path = [''users'', ''MovieFan1'', ''movies'', ''abc123''],
           req_authorization = None, req_body = Map.empty,
      req_query = Map.empty, req_headers = Map.empty, req_cookies = Map.empty\<rparr>)))
      \<lparr>req_verb = GET, req_path = [''users'', ''favorites'', ''MovieFan1''],
       req_authorization = Some ''Bearer MovieFan1'', req_body = Map.empty,
      req_query = Map.empty, req_headers = Map.empty, req_cookies = Map.empty\<rparr>)
   = Responded 200 (Favorites_json [''ghi789''])"
  using add_then_remove_favorite [of "''MovieFan1''" scenario_db no_faults
      "\<lparr>req_verb = POST, req_path = [''users'', ''MovieFan1'', ''favoriteMovies'', ''abc123''],
        req_authorization = Some ''Bearer MovieFan1'', req_body = Map.empty,
      req_query = Map.empty, req_headers = Map.empty, req_cookies = Map.empty\<rparr>" "''abc123''"
      scenario_env
      "\<lparr>req_verb = DELETE, req_path = [''users'', ''MovieFan1'', ''movies'', ''abc123''],
        req_authorization = None, req_body = Map.empty,
      req_query = Map.empty, req_headers = Map.empty, req_cookies = Map.empty\<rparr>"
      "\<lparr>req_verb = GET, req_path = [''users'', ''favorites'', ''MovieFan1''],
        req_authorization = Some ''Bearer MovieFan1'', req_body = Map.empty,
      req_query = Map.empty, req_headers = Map.empty, req_cookies = Map.empty\<rparr>"
      "[(no_faults, \<lparr>req_verb = POST,
            req_path = [''users'', ''MovieFan1'', ''favoriteMovies'', ''def456''],
            req_authorization = Some ''Bearer MovieFan1'', req_body = Map.empty,
      req_query = Map.empty, req_headers = Map.empty, req_cookies = Map.empty\<rparr>)]"
      "[(no_faults, \<lparr>req_verb = DELETE,
            req_path = [''users'', ''MovieFan1'', ''movies'', ''def456''],
            req_authorization = None, req_body = Map.empty,
      req_query = Map.empty, req_headers = Map.empty, req_cookies = Map.empty\<rparr>),
         (no_faults, \<lparr>req_verb = POST,
            req_path = [''users'', ''MovieFan1'', ''favoriteMovies'', ''ghi789''],
            req_authorization = Some ''Bearer MovieFan1'', req_body = Map.empty,
      req_query = Map.empty, req_headers = Map.empty, req_cookies = Map.empty\<rparr>)]"]
  by (simp add: lit_eval handle_def fresh_def post_favorite_def delete_favorite_def get_favorites_def
      Users_findOneAndUpdate_def Users_findOne_def named_def push_favorite_def pull_favorite_def
      other_favorite_call_def no_faults_def scenario_env_def scenario_db_def scenario_user_def)

text \<open>
  Claim C8. A request to the route removing a favourite is served without any guard:
  absent a repository error the favourite is pulled from the first user of that name and
  the answer is 200 with the updated user (null when no user has the name), the same for
  every credential \<open>a\<close> and every verifier.
\<close>

theorem remove_favorite_unguarded:
  assumes "dispatch (req_verb rq) (req_path rq) = Some (DeleteFavorite n t)"
    and "\<not> flt FindOneAndUpdate"
  shows "handle e flt d rq =
      (d\<lparr>Users := fst (updateFirst (named (Some n)) (pull_favorite t) (Users d))\<rparr>,
       Responded 200 (User_json (map_option (pull_favorite t) (find (named (Some n)) (Users d)))))
    \<and> handle e' flt d (rq\<lparr>req_authorization := a\<rparr>) = handle e flt d rq"
  using assms
  by (simp add: handle_def delete_favorite_def Users_findOneAndUpdate_def updateFirst_snd)

theorem remove_favorite_unguarded_witness:
  "handle scenario_env no_faults
     (scenario_db\<lparr>Users := [scenario_user\<lparr>FavoriteMovies := [''abc123'']\<rparr>]\<rparr>)
     \<lparr>req_verb = DELETE, req_path = [''users'', ''MovieFan1'', ''movies'', ''abc123''],
      req_authorization = None, req_body = Map.empty,
      req_query = Map.empty, req_headers = Map.empty, req_cookies = Map.empty\<rparr>
   = (scenario_db, Responded 200 (User_json (Some scenario_user)))"
  using remove_favorite_unguarded [of "\<lparr>req_verb = DELETE,
      req_path = [''users'', ''MovieFan1'', ''movies'', ''abc123''],
      req_authorization = None, req_body = Map.empty,
      req_query = Map.empty, req_headers = Map.empty, req_cookies = Map.empty\<rparr>" "''MovieFan1''" "''abc123''" no_faults
      scenario_env "scenario_db\<lparr>Users := [scenario_user\<lparr>FavoriteMovies := [''abc123'']\<rparr>]\<rparr>"]
  by (simp add: lit_eval no_faults_def scenario_db_def scenario_user_def named_def pull_favorite_def)

text \<open>
  Claim C9. For a stored user \<open>u\<close> (the first of that name), absent a repository error:
  adding \<open>m\<close> appends it to the user's favourites whether or not it is there already,
  and removing \<open>m\<close> leaves the favourites without any occurrence of \<open>m\<close>, the others
  kept in order; the answer carries the updated record.
\<close>

theorem push_appends_pull_removes_all:
  assumes "find (named (Some n)) (Users d) = Some u"
    and "\<not> flt FindOneAndUpdate"
    and "dispatch (req_verb rqa) (req_path rqa) = Some (PostFavorite n m)"
    and "verify e (req_authorization rqa) \<noteq> None"
    and "dispatch (req_verb rqr) (req_path rqr) = Some (DeleteFavorite n m)"
  shows "snd (handle e flt d rqa) =
      Responded 200 (User_json (Some (u\<lparr>FavoriteMovies := FavoriteMovies u @ [m]\<rparr>)))
    \<and> find (named (Some n)) (Users (fst (handle e flt d rqa))) =
      Some (u\<lparr>FavoriteMovies := FavoriteMovies u @ [m]\<rparr>)
    \<and> snd (handle e flt d rqr) =
      Responded 200 (User_json (Some (u\<lparr>FavoriteMovies := filter (\<lambda>x. x \<noteq> m) (FavoriteMovies u)\<rparr>)))
    \<and> find (named (Some n)) (Users (fst (handle e flt d rqr))) =
      Some (u\<lparr>FavoriteMovies := filter (\<lambda>x. x \<noteq> m) (FavoriteMovies u)\<rparr>)"
proof -
  have a: "handle e flt d rqa =
      (d\<lparr>Users := fst (updateFirst (named (Some n)) (push_favorite m) (Users d))\<rparr>,
       Responded 200 (User_json (Some (push_favorite m u))))"
    using assms by (simp add: handle_PostFavorite)
  have r: "handle e flt d rqr =
      (d\<lparr>Users := fst (updateFirst (named (Some n)) (pull_favorite m) (Users d))\<rparr>,
       Responded 200 (User_json (Some (pull_favorite m u))))"
    using assms by (simp add: handle_DeleteFavorite)
  have fa: "find (named (Some n)) (fst (updateFirst (named (Some n)) (push_favorite m) (Users d)))
      = Some (push_favorite m u)"
    using assms(1) by (simp add: find_updateFirst_same)
  have fr: "find (named (Some n)) (fst (updateFirst (named (Some n)) (pull_favorite m) (Users d)))
      = Some (pull_favorite m u)"
    using assms(1) by (simp add: find_updateFirst_same)
  show ?thesis
    using fa fr by (simp add: a r push_favorite_def pull_favorite_def)
qed

theorem push_appends_pull_removes_all_witness:
  "handle scenario_env no_faults
     (scenario_db\<lparr>Users := [scenario_user\<lparr>FavoriteMovies := [''abc123'', ''def456'', ''abc123'']\<rparr>]\<rparr>)
     \<lparr>req_verb = POST, req_path = [''users'', ''MovieFan1'', ''favoriteMovies'', ''abc123''],
      req_authorization = Some ''Bearer MovieFan1'', req_body = Map.empty,
      req_query = Map.empty, req_headers = Map.empty, req_cookies = Map.empty\<rparr>
   = (scenario_db\<lparr>Users := [scenario_user\<lparr>FavoriteMovies :=
         [''abc123'', ''def456'', ''abc123'', ''abc123'']\<rparr>]\<rparr>,
      Responded 200 (User_json (Some (scenario_user\<lparr>FavoriteMovies :=
         [''abc123'', ''def456'', ''abc123'', ''abc123'']\<rparr>))))
   \<and> handle scenario_env no_faults
     (scenario_db\<lparr>Users := [scenario_user\<lparr>FavoriteMovies := [''abc123'', ''def456'', ''abc123'']\<rparr>]\<rparr>)
     \<lparr>req_verb = DELETE, req_path = [''users'', ''MovieFan1'', ''movies'', ''abc123''],
      req_authorization = None, req_body = Map.empty,
      req_query = Map.empty, req_headers = Map.empty, req_cookies = Map.empty\<rparr>
   = (scenario_db\<lparr>Users := [scenario_user\<lparr>FavoriteMovies := [''def456'']\<rparr>]\<rparr>,
      Responded 200 (User_json (Some (scenario_user\<lparr>FavoriteMovies := [''def456'']\<rparr>))))"
  using push_appends_pull_removes_all [of "''MovieFan1''"
      "scenario_db\<lparr>Users := [scenario_user\<lparr>FavoriteMovies := [''abc123'', ''def456'', ''abc123'']\<rparr>]\<rparr>"
      "scenario_user\<lparr>FavoriteMovies := [''abc123'', ''def456'', ''abc123'']\<rparr>" no_faults
      "\<lparr>req_verb = POST, req_path = [''users'', ''MovieFan1'', ''favoriteMovies'', ''abc123''],
        req_authorization = Some ''Bearer MovieFan1'', req_body = Map.empty,
      req_query = Map.empty, req_headers = Map.empty, req_cookies = Map.empty\<rparr>" "''abc123''"
      scenario_env
      "\<lparr>req_verb = DELETE, req_path = [''users'', ''MovieFan1'', ''movies'', ''abc123''],
        req_authorization = None, req_body = Map.empty,
      req_query = Map.empty, req_headers = Map.empty, req_cookies = Map.empty\<rparr>"]
  by (simp add: lit_eval no_faults_def scenario_db_def scenario_user_def scenario_env_def named_def
      handle_def post_favorite_def delete_favorite_def Users_findOneAndUpdate_def
      push_favorite_def pull_favorite_def)

section \<open>Genres and directors\<close>

text \<open>
  Claim C10. An authenticated request for a genre or a director whose name matches no
  stored movie is answered 500 with the text of the generic error branch: the handler
  reads a property of the absent record and the \<^verbatim>\<open>TypeError\<close> is caught (when the
  lookup itself fails, the same branch answers with that failure).
\<close>

theorem genre_director_absent:
  assumes "verify e (req_authorization rq) \<noteq> None"
    and "dispatch (req_verb rq) (req_path rq) = Some (GetGenre x)
           \<and> (\<forall>m \<in> set (Movies d). Genre_Name (Genre m) \<noteq> x)
         \<or> dispatch (req_verb rq) (req_path rq) = Some (GetDirector x)
           \<and> (\<forall>m \<in> set (Movies d). Director_Name (Director m) \<noteq> x)"
  shows "handle e flt d rq =
      (d, Responded 500 (Failure ''Error'' (if flt FindOne then RepositoryError else TypeError)))"
proof -
  from assms(1) obtain p where p: "verify e (req_authorization rq) = Some p" by auto
  from assms(2) show ?thesis
  proof
    assume a: "dispatch (req_verb rq) (req_path rq) = Some (GetGenre x)
           \<and> (\<forall>m \<in> set (Movies d). Genre_Name (Genre m) \<noteq> x)"
    then have "find (\<lambda>m. Genre_Name (Genre m) = x) (Movies d) = None"
      by (simp add: find_None_iff)
    with a p show ?thesis
      by (simp add: handle_def get_genre_def Movies_findOne_def)
  next
    assume a: "dispatch (req_verb rq) (req_path rq) = Some (GetDirector x)
           \<and> (\<forall>m \<in> set (Movies d). Director_Name (Director m) \<noteq> x)"
    then have "find (\<lambda>m. Director_Name (Director m) = x) (Movies d) = None"
      by (simp add: find_None_iff)
    with a p show ?thesis
      by (simp add: handle_def get_director_def Movies_findOne_def)
  qed
qed

theorem genre_director_absent_witness:
  "handle scenario_env no_faults scenario_db
     \<lparr>req_verb = GET, req_path = [''genres'', ''Comedy''],
      req_authorization = Some ''Bearer MovieFan1'', req_body = Map.empty,
      req_query = Map.empty, req_headers = Map.empty, req_cookies = Map.empty\<rparr>
   = (scenario_db, Responded 500 (Failure ''Error'' TypeError))
   \<and> handle scenario_env no_faults scenario_db
     \<lparr>req_verb = GET, req_path = [''directors'', ''Nobody''],
      req_authorization = Some ''Bearer MovieFan1'', req_body = Map.empty,
      req_query = Map.empty, req_headers = Map.empty, req_cookies = Map.empty\<rparr>
   = (scenario_db, Responded 500 (Failure ''Error'' TypeError))"
  using genre_director_absent [of scenario_env "\<lparr>req_verb = GET, req_path = [''genres'', ''Comedy''],
      req_authorization = Some ''Bearer MovieFan1'', req_body = Map.empty,
      req_query = Map.empty, req_headers = Map.empty, req_cookies = Map.empty\<rparr>" "''Comedy''"
      scenario_db no_faults]
    genre_director_absent [of scenario_env "\<lparr>req_verb = GET, req_path = [''directors'', ''Nobody''],
      req_authorization = Some ''Bearer MovieFan1'', req_body = Map.empty,
      req_query = Map.empty, req_headers = Map.empty, req_cookies = Map.empty\<rparr>" "''Nobody''"
      scenario_db no_faults]
  by (simp add: lit_eval no_faults_def scenario_db_def scenario_movie_def scenario_env_def)

section \<open>Registration against the stored users\<close>


text \<open>A request that passes the checks and carries a password in its body, for a name not
  yet stored, creates the record with the hashed password and answers 201 with it.\<close>

lemma registration_stores_hash:
  assumes "dispatch (req_verb rq) (req_path rq) = Some PostUsers"
    and "registration_errors e rq = []"
    and "req_body rq ''password'' = Some pw"
    and "find (named (req_body rq ''userName'')) (Users d) = None"
    and "\<not> flt FindOne" and "\<not> flt Create"
  shows "handle e flt d rq =
      (d\<lparr>Users := Users d @
          [\<lparr>userName = req_body rq ''userName'', password = Some (hashPassword e pw),
            email = req_body rq ''email'', Birthday = req_body rq ''Birthday'',
            FavoriteMovies = []\<rparr>]\<rparr>,
       Responded 201 (User_json (Some
          \<lparr>userName = req_body rq ''userName'', password = Some (hashPassword e pw),
            email = req_body rq ''email'', Birthday = req_body rq ''Birthday'',
            FavoriteMovies = []\<rparr>)))"
  using assms(2-6)
  by (simp add: handle_PostUsers [OF assms(1)] post_users_def Users_findOne_def Users_create_def
      Let_def)




section \<open>The profile update\<close>

text \<open>
  Claim C1 fails on the code. The profile update stores the password of the payload as it
  is, and answers with it: after an authenticated \<^verbatim>\<open>PUT /users/MovieFan1\<close> with the
  password \<^verbatim>\<open>hunter2\<close>, the stored record and the response body both hold
  \<^verbatim>\<open>hunter2\<close>, whatever the hash function is.
\<close>

theorem profile_update_stores_plaintext:
  "handle (e\<lparr>verify := \<lambda>c. Some ''MovieFan1''\<rparr>) no_faults scenario_db
     \<lparr>req_verb = PUT, req_path = [''users'', ''MovieFan1''],
      req_authorization = Some ''Bearer MovieFan1'',
      req_body = [''userName'' \<mapsto> ''MovieFan1'', ''password'' \<mapsto> ''hunter2'',
                  ''email'' \<mapsto> ''a@b.com'', ''birthday'' \<mapsto> ''1990-01-01''],
      req_query = Map.empty, req_headers = Map.empty, req_cookies = Map.empty\<rparr>
   = (scenario_db\<lparr>Users := [scenario_user\<lparr>password := Some ''hunter2'',
                                            Birthday := Some ''1990-01-01''\<rparr>]\<rparr>,
      Responded 200 (User_json (Some (scenario_user\<lparr>password := Some ''hunter2'',
                                            Birthday := Some ''1990-01-01''\<rparr>))))"
  by (simp add: lit_eval handle_def fresh_def put_user_def Users_findOneAndUpdate_def
      set_profile_def assign_def named_def no_faults_def scenario_db_def scenario_user_def)

text \<open>
  Claim C7 fails on the code. The profile update runs no check: a payload that violates
  three of the field rules of registration is written to the stored record.
\<close>

theorem profile_update_skips_validation:
  "violated e [''userName'' \<mapsto> ''m!'', ''password'' \<mapsto> '''', ''email'' \<mapsto> ''nobody''] Username_min5
   \<and> violated e [''userName'' \<mapsto> ''m!'', ''password'' \<mapsto> '''', ''email'' \<mapsto> ''nobody''] Username_alphanumeric
   \<and> violated e [''userName'' \<mapsto> ''m!'', ''password'' \<mapsto> '''', ''email'' \<mapsto> ''nobody''] Password_required
   \<and> handle (e\<lparr>verify := \<lambda>c. Some ''MovieFan1''\<rparr>) no_faults scenario_db
     \<lparr>req_verb = PUT, req_path = [''users'', ''MovieFan1''],
      req_authorization = Some ''Bearer MovieFan1'',
      req_body = [''userName'' \<mapsto> ''m!'', ''password'' \<mapsto> '''', ''email'' \<mapsto> ''nobody''],
      req_query = Map.empty, req_headers = Map.empty, req_cookies = Map.empty\<rparr>
   = (scenario_db\<lparr>Users := [\<lparr>userName = Some ''m!'', password = Some '''',
         email = Some ''nobody'', Birthday = None, FavoriteMovies = []\<rparr>]\<rparr>,
      Responded 200 (User_json (Some \<lparr>userName = Some ''m!'', password = Some '''',
         email = Some ''nobody'', Birthday = None, FavoriteMovies = []\<rparr>)))"
  by (simp add: lit_eval handle_def fresh_def put_user_def Users_findOneAndUpdate_def
      set_profile_def assign_def named_def toString_def alphanumeric_def
      no_faults_def scenario_db_def scenario_user_def)

end
